theory Spec2Isabelle
  imports Main "HOL-Library.Multiset"
begin

section \<open>Errors\<close>

text \<open>
  Go errors are values carrying a message. The API client marks some of its errors as
  "not found"; everything else the client reports is a transport error. Errors made by
  the provider itself (\<^verbatim>\<open>errors.New\<close>, \<^verbatim>\<open>fmt.Errorf\<close>) and by the JSON and semver
  libraries are plain errors. A run-time panic (a failed type assertion) is kept apart:
  it is not a returned value, and no caller can drop it.
\<close>

datatype error = NotFound string | TransportError string | PlainError string | Panic string

text \<open>\<^verbatim>\<open>err.Error()\<close>: the message of an error.\<close>

fun Error :: "error \<Rightarrow> string" where
  "Error (NotFound m) = m"
| "Error (TransportError m) = m"
| "Error (PlainError m) = m"
| "Error (Panic m) = m"

text \<open>
  Modelled from the spec: \<^verbatim>\<open>apiclient.NotFoundError\<close> belongs to the client package, which
  is not among the sources. The spec says a remote read "fails with a distinguishable
  NotFound kind"; the predicate recognises exactly that kind.
\<close>

fun NotFoundError :: "error \<Rightarrow> bool" where
  "NotFoundError (NotFound m) = True"
| "NotFoundError (TransportError m) = False"
| "NotFoundError (PlainError m) = False"
| "NotFoundError (Panic m) = False"

section \<open>Local state: \<^verbatim>\<open>schema.ResourceData\<close>\<close>

text \<open>
  The host keeps, for one entity, its id and a table of attributes addressed by name.
  The schemas of this provider use strings, lists of strings and maps of strings.
\<close>

datatype tfvalue = TString string | TList "string list" | TMap "string \<rightharpoonup> string"

record ResourceData =
  d_Id :: string
  attrs :: "string \<rightharpoonup> tfvalue"

definition SetId :: "string \<Rightarrow> ResourceData \<Rightarrow> ResourceData" where
  "SetId v d = d\<lparr>d_Id := v\<rparr>"

definition d_Set :: "string \<Rightarrow> tfvalue \<Rightarrow> ResourceData \<Rightarrow> ResourceData" where
  "d_Set k v d = d\<lparr>attrs := (attrs d)(k \<mapsto> v)\<rparr>"

text \<open>
  The zero value of an attribute, by the type its schema declares: \<^verbatim>\<open>parent_akas\<close> is a
  list, \<^verbatim>\<open>tags\<close> and \<^verbatim>\<open>turbot\<close> are maps, every other attribute is a string.
\<close>

definition schema_zero :: "string \<Rightarrow> tfvalue" where
  "schema_zero k =
     (if k = ''parent_akas'' then TList []
      else if k = ''tags'' \<or> k = ''turbot'' then TMap Map.empty
      else TString [])"

text \<open>\<^verbatim>\<open>d.Get(k)\<close>: the stored value, the zero value of the type when nothing is stored.\<close>

definition d_Get :: "ResourceData \<Rightarrow> string \<Rightarrow> tfvalue" where
  "d_Get d k = (case attrs d k of None \<Rightarrow> schema_zero k | Some v \<Rightarrow> v)"

text \<open>\<^verbatim>\<open>d.Get(k).(string)\<close>, used on attributes whose schema type is string.\<close>

definition GetString :: "ResourceData \<Rightarrow> string \<Rightarrow> string" where
  "GetString d k = (case d_Get d k of TString s \<Rightarrow> s | _ \<Rightarrow> [])"

text \<open>
  \<^verbatim>\<open>d.GetOk(k)\<close>: the value together with a flag that is true only when the attribute
  has been set to something other than the zero value of its type.
\<close>

definition GetOk :: "ResourceData \<Rightarrow> string \<Rightarrow> tfvalue \<times> bool" where
  "GetOk d k = (d_Get d k, attrs d k \<noteq> None \<and> d_Get d k \<noteq> schema_zero k)"

text \<open>
  A Go slice of strings is either \<^verbatim>\<open>nil\<close> (\<open>None\<close>) or holds elements. Writing a slice
  into a list attribute stores its elements; a \<^verbatim>\<open>nil\<close> slice has none.
\<close>

type_synonym go_strings = "string list option"

fun slice_elems :: "go_strings \<Rightarrow> string list" where
  "slice_elems None = []"
| "slice_elems (Some xs) = xs"

section \<open>Diff suppression for the parent attribute\<close>

text \<open>The loop of \<^verbatim>\<open>supressIfParentAkaMatches\<close> over the stored akas.\<close>

fun aka_loop :: "string list \<Rightarrow> string \<Rightarrow> bool" where
  "aka_loop [] new = False"
| "aka_loop (aka # akas) new = (if aka = new then True else aka_loop akas new)"

definition supressIfParentAkaMatches ::
    "string \<Rightarrow> string \<Rightarrow> string \<Rightarrow> ResourceData \<Rightarrow> bool" where
  "supressIfParentAkaMatches k old new d =
     (case GetOk d ''parent_akas'' of
        (parentAkasProperty, parentAkasSet) \<Rightarrow>
          if \<not> parentAkasSet then False
          else (case parentAkasProperty of
                  TList parentAkas \<Rightarrow> aka_loop parentAkas new
                | _ \<Rightarrow> False))"

section \<open>Diff suppression for the mod version attribute\<close>

definition supressIfLatestCompatibleVersionInstalled ::
    "string \<Rightarrow> string \<Rightarrow> string \<Rightarrow> ResourceData \<Rightarrow> bool" where
  "supressIfLatestCompatibleVersionInstalled k old new d = False"

section \<open>Body normaliser\<close>

text \<open>
  What \<^verbatim>\<open>encoding/json\<close> decodes into \<^verbatim>\<open>interface{}\<close>: \<^verbatim>\<open>nil\<close>, a boolean, a number,
  a string, a slice, or a \<^verbatim>\<open>map[string]interface{}\<close>. A Go map has no key order, so an
  object is a partial function from keys. The representation of numbers is left open.
\<close>

datatype 'n json =
    JNull
  | JBool bool
  | JNumber 'n
  | JString string
  | JArray "'n json list"
  | JObject "string \<Rightarrow> 'n json option"

text \<open>
  The two calls made into \<^verbatim>\<open>encoding/json\<close>, which is a library and not part of the
  sources: \<^verbatim>\<open>json.Unmarshal([]byte(body), &data)\<close> with \<open>data\<close> a fresh empty
  \<^verbatim>\<open>map[string]interface{}\<close>, and \<^verbatim>\<open>json.MarshalIndent(d, "", " ")\<close>. Both are parameters.
\<close>

record 'n json_pkg =
  Unmarshal :: "string \<Rightarrow> error + (string \<rightharpoonup> 'n json)"
  MarshalIndent :: "(string \<rightharpoonup> 'n json) \<Rightarrow> error + string"

text \<open>
  \<^verbatim>\<open>propertiesFromBody\<close>: every top-level key of the decoded body, mapped to itself.
  The result of the \<^verbatim>\<open>range\<close> loop does not depend on the order of iteration.
\<close>

definition propertiesFromBody :: "'n json_pkg \<Rightarrow> string \<Rightarrow> error + (string \<rightharpoonup> string)" where
  "propertiesFromBody js body =
     (case Unmarshal js body of
        Inl err \<Rightarrow> Inl err
      | Inr data \<Rightarrow> Inr (\<lambda>k. if k \<in> dom data then Some k else None))"

text \<open>
  \<^verbatim>\<open>bodyFromProperties\<close> returns a pair as the Go function does: the empty string and the
  error when marshalling fails, the text and no error otherwise.
\<close>

definition bodyFromProperties :: "'n json_pkg \<Rightarrow> (string \<rightharpoonup> 'n json) \<Rightarrow> string \<times> error option" where
  "bodyFromProperties js d =
     (case MarshalIndent js d of
        Inl err \<Rightarrow> ([], Some err)
      | Inr body \<Rightarrow> (body, None))"

text \<open>
  \<^verbatim>\<open>formatBody\<close>. The statement \<^verbatim>\<open>body, err := bodyFromProperties(data)\<close> stands in the
  outermost block of the function, where the parameter \<open>body\<close> is already declared, so it
  assigns to \<open>body\<close>: after it, both branches return the first component of the pair.
\<close>

definition formatBody :: "'n json_pkg \<Rightarrow> string \<Rightarrow> string" where
  "formatBody js body =
     (case Unmarshal js body of
        Inl err \<Rightarrow> body
      | Inr data \<Rightarrow>
          (case bodyFromProperties js data of
             (body', Some err) \<Rightarrow> body'
           | (body', None) \<Rightarrow> body'))"

definition suppressIfBodyMatches ::
    "'n json_pkg \<Rightarrow> string \<Rightarrow> string \<Rightarrow> string \<Rightarrow> ResourceData \<Rightarrow> bool" where
  "suppressIfBodyMatches js k old new d =
     (if old = [] \<or> new = [] then False
      else formatBody js old = formatBody js new)"

text \<open>
  The composition the specification calls the round trip,
  \<^verbatim>\<open>bodyFromProperties(propertiesFromBody(normalize(x)))\<close>. The map of strings that
  \<^verbatim>\<open>propertiesFromBody\<close> returns is handed on as a map of \<^verbatim>\<open>interface{}\<close> values, each
  string as itself.
\<close>

definition as_interface_map :: "(string \<rightharpoonup> string) \<Rightarrow> (string \<rightharpoonup> 'n json)" where
  "as_interface_map properties = (\<lambda>k. map_option JString (properties k))"

definition round_trip :: "'n json_pkg \<Rightarrow> string \<Rightarrow> string \<times> error option" where
  "round_trip js x =
     (case propertiesFromBody js (formatBody js x) of
        Inl err \<Rightarrow> ([], Some err)
      | Inr properties \<Rightarrow> bodyFromProperties js (as_interface_map properties))"

text \<open>Two texts are structurally equal when both decode, and to the same object.\<close>

definition structurally_equal :: "'n json_pkg \<Rightarrow> string \<Rightarrow> string \<Rightarrow> bool" where
  "structurally_equal js s t =
     (case (Unmarshal js s, Unmarshal js t) of
        (Inr m, Inr m') \<Rightarrow> m = m'
      | _ \<Rightarrow> False)"

text \<open>
  A stand-in for the library on five texts and the three objects they denote, with the
  results the library gives there: members sorted by key, one per line, one space of
  indentation.
\<close>

definition text_a1 :: string where
  \<open>text_a1 = ''{"a": 1}''\<close>

definition text_a1_indented :: string where
  \<open>text_a1_indented = ''{'' @ [CHR 0x0A] @ '' "a": 1'' @ [CHR 0x0A] @ ''}''\<close>

definition text_aa_indented :: string where
  \<open>text_aa_indented = ''{'' @ [CHR 0x0A] @ '' "a": "a"'' @ [CHR 0x0A] @ ''}''\<close>

definition text_ab :: string where
  \<open>text_ab = ''{"a": 1, "b": 2}''\<close>

definition text_ba :: string where
  \<open>text_ba = ''{"b": 2, "a": 1}''\<close>

definition text_ab_indented :: string where
  \<open>text_ab_indented =
     ''{'' @ [CHR 0x0A] @ '' "a": 1,'' @ [CHR 0x0A] @ '' "b": 2'' @ [CHR 0x0A] @ ''}''\<close>

definition json0 :: "int json_pkg" where
  "json0 =
     \<lparr>Unmarshal = (\<lambda>body.
        if body = text_a1 \<or> body = text_a1_indented then Inr [''a'' \<mapsto> JNumber 1]
        else if body = text_aa_indented then Inr [''a'' \<mapsto> JString ''a'']
        else if body = text_ab \<or> body = text_ba \<or> body = text_ab_indented
          then Inr [''a'' \<mapsto> JNumber 1, ''b'' \<mapsto> JNumber 2]
        else Inl (PlainError ''invalid character'')),
      MarshalIndent = (\<lambda>d.
        if d ''a'' = Some (JNumber 1) \<and> d ''b'' = Some (JNumber 2) then Inr text_ab_indented
        else if d ''a'' = Some (JNumber 1) then Inr text_a1_indented
        else if d ''a'' = Some (JString ''a'') then Inr text_aa_indented
        else Inl (PlainError ''json: unsupported value''))\<rparr>"

section \<open>The API client\<close>

text \<open>
  Modelled from the spec: the client package (\<^verbatim>\<open>apiclient\<close>) is not among the sources.
  The specification gives its calls and what they return; the records below hold the
  fields of the results that the controllers read, under the names the controllers use,
  and \<open>Client\<close> holds the calls they make. A client value is the remote system as seen
  at one moment: the same call with the same arguments gives the same answer.
\<close>

record TurbotMetadata =
  Id :: string
  ParentId :: string
  Akas :: go_strings

record 'n Resource =
  Turbot :: TurbotMetadata
  Data :: "string \<rightharpoonup> 'n json"

record Folder =
  folder_Turbot :: TurbotMetadata
  folder_Parent :: string
  Title :: string
  Description :: string

record Control =
  control_Turbot :: "string \<rightharpoonup> string"
  type_Uri :: string
  State :: string
  Reason :: string
  Details :: string

record Mod =
  mod_Turbot :: TurbotMetadata
  mod_Parent :: string
  Org :: string
  mod_Mod :: string
  mod_Version :: string

record ModVersion =
  Version :: string
  Status :: string

text \<open>
  \<^verbatim>\<open>ReadResource\<close> takes the map of requested properties, which may be \<^verbatim>\<open>nil\<close>
  (\<open>None\<close>).
\<close>

record 'n Client =
  ReadResource :: "string \<Rightarrow> (string \<rightharpoonup> string) option \<Rightarrow> error + 'n Resource"
  ReadFolder :: "string \<Rightarrow> error + Folder"
  GetResourceAkas :: "string \<Rightarrow> error + go_strings"
  ReadControl :: "string \<Rightarrow> error + Control"
  ReadMod :: "string \<Rightarrow> error + Mod"
  InstallMod :: "string \<Rightarrow> string \<Rightarrow> string \<Rightarrow> string \<Rightarrow> error + Mod"
  GetModVersions :: "string \<Rightarrow> string \<Rightarrow> error + ModVersion list"

section \<open>Alias resolver\<close>

text \<open>
  \<^verbatim>\<open>setParentAkas(parentId, d, meta)\<close>. The local \<open>parentAkas\<close> receives the fallback
  \<^verbatim>\<open>[]string{parentId}\<close>; the value written to the attribute is \<^verbatim>\<open>parent.Turbot.Akas\<close>.
  Every controller returns its error (if any) together with the local state as it left it.
\<close>

definition setParentAkas ::
    "string \<Rightarrow> ResourceData \<Rightarrow> 'n Client \<Rightarrow> error option \<times> ResourceData" where
  "setParentAkas parentId d client =
     (case ReadResource client parentId None of
        Inl err \<Rightarrow> (Some err, d)
      | Inr parent \<Rightarrow>
          (let parentAkas = Akas (Turbot parent);
               parentAkas = (if parentAkas = None then Some [parentId] else parentAkas)
           in (None, d_Set ''parent_akas'' (TList (slice_elems (Akas (Turbot parent)))) d)))"

section \<open>Lifecycle controllers: Read\<close>

definition resourceTurbotResourceRead ::
    "'n json_pkg \<Rightarrow> 'n Client \<Rightarrow> ResourceData \<Rightarrow> error option \<times> ResourceData" where
  "resourceTurbotResourceRead js client d =
     (let id = d_Id d in
      case propertiesFromBody js (GetString d ''body'') of
        Inl err \<Rightarrow>
          (Some (PlainError (''error retrieving properties from resource body: '' @ Error err)), d)
      | Inr properties \<Rightarrow>
          (case ReadResource client id (Some properties) of
             Inl err \<Rightarrow> (Some err, if NotFoundError err then SetId [] d else d)
           | Inr resource \<Rightarrow>
               (case bodyFromProperties js (Data resource) of
                  (body, Some err) \<Rightarrow>
                    (Some (PlainError (''error building resource body: '' @ Error err)), d)
                | (body, None) \<Rightarrow>
                    (case setParentAkas (ParentId (Turbot resource)) d client of
                       (Some err, d') \<Rightarrow> (Some err, d')
                     | (None, d') \<Rightarrow>
                         (None,
                          d_Set ''body'' (TString body)
                            (d_Set ''parent'' (TString (ParentId (Turbot resource))) d'))))))"

definition resourceTurbotFolderRead ::
    "'n Client \<Rightarrow> ResourceData \<Rightarrow> error option \<times> ResourceData" where
  "resourceTurbotFolderRead client d =
     (let id = d_Id d in
      case ReadFolder client id of
        Inl err \<Rightarrow> (Some err, if NotFoundError err then SetId [] d else d)
      | Inr folder \<Rightarrow>
          (case GetResourceAkas client (ParentId (folder_Turbot folder)) of
             Inl err \<Rightarrow> (Some err, d)
           | Inr parentAkas \<Rightarrow>
               (None,
                d_Set ''description'' (TString (Description folder))
                  (d_Set ''title'' (TString (Title folder))
                    (d_Set ''parent'' (TString (folder_Parent folder))
                      (d_Set ''parent_akas'' (TList (slice_elems parentAkas)) d))))))"

section \<open>Control data source\<close>

text \<open>
  The argument string \<^verbatim>\<open>dataSourceTurbotControlRead\<close> builds for \<^verbatim>\<open>ReadControl\<close>. Both
  \<open>controlUri\<close> and \<open>resourceId\<close> are read from the attribute \<^verbatim>\<open>uri\<close>.
\<close>

definition control_args :: "ResourceData \<Rightarrow> string" where
  "control_args d =
     (let controlId = GetString d ''id'';
          controlUri = GetString d ''uri'';
          resourceId = GetString d ''uri''
      in if controlUri \<noteq> [] \<and> resourceId \<noteq> []
         then ''uri: '' @ controlUri @ '', resourceId: '' @ resourceId
         else ''id: '' @ controlId)"

text \<open>\<^verbatim>\<open>control.Turbot[k]\<close>: the empty string for a key the map does not have.\<close>

definition turbot_index :: "(string \<rightharpoonup> string) \<Rightarrow> string \<Rightarrow> string" where
  "turbot_index m k = (case m k of None \<Rightarrow> [] | Some v \<Rightarrow> v)"

definition dataSourceTurbotControlRead ::
    "'n Client \<Rightarrow> ResourceData \<Rightarrow> error option \<times> ResourceData" where
  "dataSourceTurbotControlRead client d =
     (let args = control_args d in
      case ReadControl client args of
        Inl err \<Rightarrow> (Some err, if NotFoundError err then SetId [] d else d)
      | Inr control \<Rightarrow>
          (None,
           d_Set ''turbot'' (TMap (control_Turbot control))
             (d_Set ''details'' (TString (Details control))
               (d_Set ''reason'' (TString (Reason control))
                 (d_Set ''state'' (TString (State control))
                   (d_Set ''resource'' (TString (turbot_index (control_Turbot control) ''resourceId''))
                     (d_Set ''uri'' (TString (type_Uri control))
                       (SetId (turbot_index (control_Turbot control) ''id'') d))))))))"

text \<open>
  The selector a control read is specified to pass: the pair of the declared uri and the
  declared resource id when both are non-empty, the explicit id otherwise.
\<close>

definition control_selector_spec :: "ResourceData \<Rightarrow> string" where
  "control_selector_spec d =
     (if GetString d ''uri'' \<noteq> [] \<and> GetString d ''resource'' \<noteq> []
      then ''uri: '' @ GetString d ''uri'' @ '', resourceId: '' @ GetString d ''resource''
      else ''id: '' @ GetString d ''id'')"

section \<open>Version resolution\<close>

text \<open>
  The calls made into the semver library, which is not part of the sources:
  \<^verbatim>\<open>semver.NewConstraint\<close>, \<^verbatim>\<open>semver.NewVersion\<close> and \<^verbatim>\<open>c.Check(v)\<close>. They are
  parameters, over the library's own types of constraints \<open>'c\<close> and versions \<open>'v\<close>.
\<close>

record ('c, 'v) semver_pkg =
  NewConstraint :: "string \<Rightarrow> error + 'c"
  NewVersion :: "string \<Rightarrow> error + 'v"
  Check :: "'c \<Rightarrow> 'v \<Rightarrow> bool"

text \<open>
  The loop of \<^verbatim>\<open>getLatestCompatibleVersion\<close> over the published versions, with
  \<open>latestCompatibleVersion\<close> as accumulator.
\<close>

fun versions_loop ::
    "('c, 'v) semver_pkg \<Rightarrow> 'c \<Rightarrow> ModVersion list \<Rightarrow> string \<Rightarrow> error + string" where
  "versions_loop sv c [] latestCompatibleVersion = Inr latestCompatibleVersion"
| "versions_loop sv c (modVersion # modVersions) latestCompatibleVersion =
     (if Status modVersion = ''available'' then
        (case NewVersion sv (Version modVersion) of
           Inl err \<Rightarrow> Inl err
         | Inr v \<Rightarrow>
             if Check sv c v
             then versions_loop sv c modVersions (Version modVersion)
             else versions_loop sv c modVersions latestCompatibleVersion)
      else versions_loop sv c modVersions latestCompatibleVersion)"

text \<open>
  The host fills in the defaults of the schema (\<^verbatim>\<open>version\<close> defaults to \<^verbatim>\<open>*\<close>) before
  a controller runs; the controller reads what is stored.
\<close>

definition getLatestCompatibleVersion ::
    "('c, 'v) semver_pkg \<Rightarrow> 'n Client \<Rightarrow> ResourceData \<Rightarrow> error + string" where
  "getLatestCompatibleVersion sv client d =
     (let org = GetString d ''org'';
          modName = GetString d ''mod'';
          version = GetString d ''version''
      in case GetModVersions client org modName of
           Inl err \<Rightarrow> Inl err
         | Inr modVersions \<Rightarrow>
             (case NewConstraint sv version of
                Inl err \<Rightarrow> Inl err
              | Inr c \<Rightarrow> versions_loop sv c modVersions []))"

text \<open>
  The order the specification asks the resolver to use, on versions without pre-release
  part: \<open>major.minor.patch\<close> compared number by number, the major number first.
\<close>

fun version_less :: "nat \<times> nat \<times> nat \<Rightarrow> nat \<times> nat \<times> nat \<Rightarrow> bool" where
  "version_less (a, b, c) (a', b', c') =
     (a < a' \<or> (a = a' \<and> (b < b' \<or> (b = b' \<and> c < c'))))"

section \<open>Convergence poller\<close>

definition getInstalledModVersion :: "string \<Rightarrow> 'n Client \<Rightarrow> error + string" where
  "getInstalledModVersion modId client =
     (let properties = [''version'' \<mapsto> ''turbot.custom.installedVersion''] in
      case ReadResource client modId (Some properties) of
        Inl err \<Rightarrow> Inl err
      | Inr resource \<Rightarrow>
          (case Data resource ''version'' of
             None \<Rightarrow> Inr []
           | Some JNull \<Rightarrow> Inr []
           | Some (JString installedVersion) \<Rightarrow> Inr installedVersion
           | Some _ \<Rightarrow> Inl (Panic ''interface conversion: interface {} is not string'')))"

text \<open>
  The poller spans time. The remote system is a client for every moment (in seconds);
  \<^verbatim>\<open>time.Sleep\<close> moves the clock on. The loop returns its error (if any), the clock at
  return, and the moments at which it polled, in order.
\<close>

function wait_loop ::
    "(nat \<Rightarrow> 'n Client) \<Rightarrow> string \<Rightarrow> string \<Rightarrow> nat \<Rightarrow> nat \<Rightarrow> nat \<Rightarrow> nat \<Rightarrow> nat list
       \<Rightarrow> error option \<times> nat \<times> nat list" where
  "wait_loop remote modId targetVersion maxRetries sleep retryCount now polled =
     (if retryCount < maxRetries then
        (case getInstalledModVersion modId (remote now) of
           Inl err \<Rightarrow> (Some err, now, polled @ [now])
         | Inr installedVersion \<Rightarrow>
             if installedVersion = targetVersion then (None, now, polled @ [now])
             else wait_loop remote modId targetVersion maxRetries sleep
                    (retryCount + 1) (now + sleep) (polled @ [now]))
      else (Some (PlainError ''Turbot mod installation timed out''), now, polled))"
  by pat_completeness auto
termination
  by (relation "measure (\<lambda>(remote, modId, targetVersion, maxRetries, sleep, retryCount, now, polled).
        maxRetries - retryCount)") auto

definition waitForInstallation ::
    "string \<Rightarrow> string \<Rightarrow> (nat \<Rightarrow> 'n Client) \<Rightarrow> nat \<Rightarrow> error option \<times> nat \<times> nat list" where
  "waitForInstallation modId targetVersion remote now =
     (let retryCount = 0; maxRetries = 40; sleep = 20
      in wait_loop remote modId targetVersion maxRetries sleep retryCount now [])"

section \<open>Lifecycle controllers: mod install and read\<close>

text \<open>
  \<^verbatim>\<open>modInstall\<close>. The mod controller calls a two-argument \<^verbatim>\<open>setParentAkas(d, meta)\<close>,
  which is not among the sources; it is the parameter \<open>setParentAkasMod\<close>. The call
  \<^verbatim>\<open>waitForInstallation(modId, targetVersion, client)\<close> is a statement: what it returns
  is not looked at (only a panic would end the function there).
\<close>

definition modInstall ::
    "('c, 'v) semver_pkg \<Rightarrow> ('n Client \<Rightarrow> ResourceData \<Rightarrow> error option \<times> ResourceData)
       \<Rightarrow> (nat \<Rightarrow> 'n Client) \<Rightarrow> nat \<Rightarrow> ResourceData \<Rightarrow> error option \<times> ResourceData" where
  "modInstall sv setParentAkasMod remote now d =
     (let client = remote now;
          parentAka = GetString d ''parent'';
          org = GetString d ''org'';
          modName = GetString d ''mod'';
          version = GetString d ''version''
      in case getLatestCompatibleVersion sv client d of
           Inl err \<Rightarrow> (Some err, d)
         | Inr targetVersion \<Rightarrow>
             (case InstallMod client parentAka org modName version of
                Inl err \<Rightarrow> (Some err, d)
              | Inr mod_result \<Rightarrow>
                  (let modId = Id (mod_Turbot mod_result) in
                   case waitForInstallation modId targetVersion remote now of
                     (Some (Panic m), now', polled) \<Rightarrow> (Some (Panic m), d)
                   | (_, now', polled) \<Rightarrow>
                       (case setParentAkasMod (remote now') d of
                          (Some err, d') \<Rightarrow> (Some err, d')
                        | (None, d') \<Rightarrow>
                            (None,
                             d_Set ''latest_compatible_version'' (TString targetVersion)
                               (SetId modId d'))))))"

definition resourceTurbotModInstall ::
    "('c, 'v) semver_pkg \<Rightarrow> ('n Client \<Rightarrow> ResourceData \<Rightarrow> error option \<times> ResourceData)
       \<Rightarrow> (nat \<Rightarrow> 'n Client) \<Rightarrow> nat \<Rightarrow> ResourceData \<Rightarrow> error option \<times> ResourceData" where
  "resourceTurbotModInstall sv setParentAkasMod remote now d =
     modInstall sv setParentAkasMod remote now d"

definition resourceTurbotModUpdate ::
    "('c, 'v) semver_pkg \<Rightarrow> ('n Client \<Rightarrow> ResourceData \<Rightarrow> error option \<times> ResourceData)
       \<Rightarrow> (nat \<Rightarrow> 'n Client) \<Rightarrow> nat \<Rightarrow> ResourceData \<Rightarrow> error option \<times> ResourceData" where
  "resourceTurbotModUpdate sv setParentAkasMod remote now d =
     modInstall sv setParentAkasMod remote now d"

definition resourceTurbotModRead ::
    "('c, 'v) semver_pkg \<Rightarrow> ('n Client \<Rightarrow> ResourceData \<Rightarrow> error option \<times> ResourceData)
       \<Rightarrow> 'n Client \<Rightarrow> ResourceData \<Rightarrow> error option \<times> ResourceData" where
  "resourceTurbotModRead sv setParentAkasMod client d =
     (let id = d_Id d in
      case ReadMod client id of
        Inl err \<Rightarrow> (Some err, if NotFoundError err then SetId [] d else d)
      | Inr mod_result \<Rightarrow>
          (case getLatestCompatibleVersion sv client d of
             Inl err \<Rightarrow> (Some err, d)
           | Inr targetVersion \<Rightarrow>
               (case setParentAkasMod client d of
                  (Some err, d') \<Rightarrow> (Some err, d')
                | (None, d') \<Rightarrow>
                    (None,
                     d_Set ''latest_compatible_version'' (TString targetVersion)
                       (d_Set ''version'' (TString (mod_Version mod_result))
                         (d_Set ''mod'' (TString (mod_Mod mod_result))
                           (d_Set ''org'' (TString (Org mod_result))
                             (d_Set ''parent'' (TString (mod_Parent mod_result)) d'))))))))"

section \<open>Concrete inputs\<close>

text \<open>
  A stand-in for the semver library on the wildcard constraint and two plain versions,
  with the results the library gives there.
\<close>

definition semver0 :: "(unit, nat \<times> nat \<times> nat) semver_pkg" where
  "semver0 =
     \<lparr>NewConstraint = (\<lambda>s. if s = ''*'' then Inr () else Inl (PlainError ''improper constraint'')),
      NewVersion = (\<lambda>s.
        if s = ''1.0.0'' then Inr (1, 0, 0)
        else if s = ''2.0.0'' then Inr (2, 0, 0)
        else Inl (PlainError ''Invalid Semantic Version'')),
      Check = (\<lambda>c v. True)\<rparr>"

text \<open>
  A remote system that publishes versions 2.0.0 and 1.0.0 of the mod, in this order,
  accepts the installation, and then keeps reporting version 0.9.0 as installed. The
  resources it returns have no recorded akas.
\<close>

definition stuck_client :: "int Client" where
  "stuck_client =
     \<lparr>ReadResource = (\<lambda>id properties.
        Inr \<lparr>Turbot = \<lparr>Id = id, ParentId = ''100'', Akas = None\<rparr>,
             Data = [''version'' \<mapsto> JString ''0.9.0'']\<rparr>),
      ReadFolder = (\<lambda>id. Inl (TransportError ''connection refused'')),
      GetResourceAkas = (\<lambda>id. Inr None),
      ReadControl = (\<lambda>args. Inl (TransportError args)),
      ReadMod = (\<lambda>id.
        Inr \<lparr>mod_Turbot = \<lparr>Id = id, ParentId = ''100'', Akas = None\<rparr>,
             mod_Parent = ''100'', Org = ''turbot'', mod_Mod = ''aws'', mod_Version = ''0.9.0''\<rparr>),
      InstallMod = (\<lambda>parentAka org modName version.
        Inr \<lparr>mod_Turbot = \<lparr>Id = ''200'', ParentId = ''100'', Akas = None\<rparr>,
             mod_Parent = parentAka, Org = org, mod_Mod = modName, mod_Version = version\<rparr>),
      GetModVersions = (\<lambda>org modName.
        Inr [\<lparr>Version = ''2.0.0'', Status = ''available''\<rparr>,
             \<lparr>Version = ''1.0.0'', Status = ''available''\<rparr>])\<rparr>"

definition stuck_remote :: "nat \<Rightarrow> int Client" where
  "stuck_remote t = stuck_client"

text \<open>A stand-in for the mod controller's alias resolver: it stores the parent aka.\<close>

definition set_parent_akas0 :: "int Client \<Rightarrow> ResourceData \<Rightarrow> error option \<times> ResourceData" where
  "set_parent_akas0 client d = (None, d_Set ''parent_akas'' (TList [GetString d ''parent'']) d)"

definition mod_config :: ResourceData where
  "mod_config =
     \<lparr>d_Id = [],
      attrs = [''parent'' \<mapsto> TString ''tmod:@turbot/turbot#/'', ''org'' \<mapsto> TString ''turbot'',
               ''mod'' \<mapsto> TString ''aws'', ''version'' \<mapsto> TString ''*'']\<rparr>"

text \<open>A remote system on which every read fails, with "not found" or in transport.\<close>

definition failing_client :: "error \<Rightarrow> int Client" where
  "failing_client err =
     \<lparr>ReadResource = (\<lambda>id properties. Inl err),
      ReadFolder = (\<lambda>id. Inl err),
      GetResourceAkas = (\<lambda>id. Inl err),
      ReadControl = (\<lambda>args. Inl err),
      ReadMod = (\<lambda>id. Inl err),
      InstallMod = (\<lambda>parentAka org modName version. Inl err),
      GetModVersions = (\<lambda>org modName. Inl err)\<rparr>"

definition resource_state :: ResourceData where
  "resource_state =
     \<lparr>d_Id = ''300'',
      attrs = [''parent'' \<mapsto> TString ''100'', ''type'' \<mapsto> TString ''tmod:@turbot/aws#/resource/types/x'',
               ''body'' \<mapsto> TString text_a1]\<rparr>"

definition control_config :: ResourceData where
  "control_config =
     \<lparr>d_Id = [],
      attrs = [''id'' \<mapsto> TString ''400'', ''uri'' \<mapsto> TString ''tmod:@turbot/aws#/control/types/x'',
               ''resource'' \<mapsto> TString ''300'']\<rparr>"

section \<open>Auxiliary facts\<close>

declare wait_loop.simps [simp del]

lemma aka_loop_mem: "aka_loop akas new = (new \<in> set akas)"
  by (induction akas) auto

lemma map_of_reorder:
  assumes "mset ms = mset ms'" and "distinct (map fst ms)"
  shows "map_of ms = map_of ms'"
proof -
  have "mset (map fst ms) = mset (map fst ms')"
    using assms(1) by (metis mset_map)
  then have "distinct (map fst ms')"
    using assms(2) by (metis mset_eq_imp_distinct_iff)
  moreover have "set ms = set ms'"
    using assms(1) by (metis mset_eq_setD)
  ultimately show ?thesis
    using assms(2) by (simp add: map_of_inject_set)
qed

lemma json0_a1: "Unmarshal json0 text_a1 = Inr [''a'' \<mapsto> JNumber 1]"
  by (simp add: json0_def)

lemma json0_a1_indented: "Unmarshal json0 text_a1_indented = Inr [''a'' \<mapsto> JNumber 1]"
  by (simp add: json0_def)

lemma json0_aa_indented: "Unmarshal json0 text_aa_indented = Inr [''a'' \<mapsto> JString ''a'']"
  by (simp add: json0_def text_a1_def text_a1_indented_def text_aa_indented_def)

lemma json0_ab: "Unmarshal json0 text_ab = Inr (map_of [(''b'', JNumber 2), (''a'', JNumber 1)])"
  by (simp add: json0_def text_a1_def text_a1_indented_def text_aa_indented_def text_ab_def)

lemma json0_ba: "Unmarshal json0 text_ba = Inr (map_of [(''a'', JNumber 1), (''b'', JNumber 2)])"
proof -
  have "[''a'' \<mapsto> JNumber 1, ''b'' \<mapsto> JNumber 2] =
      [''b'' \<mapsto> JNumber 2, ''a'' \<mapsto> (JNumber 1 :: int json)]"
    by (rule ext) simp
  then show ?thesis
    by (simp add: json0_def text_a1_def text_a1_indented_def text_aa_indented_def text_ba_def)
qed

lemma json0_marshal_a1: "MarshalIndent json0 [''a'' \<mapsto> JNumber 1] = Inr text_a1_indented"
  by (simp add: json0_def)

lemma json0_formatBody: "formatBody json0 text_a1 = text_a1_indented"
  by (simp add: formatBody_def bodyFromProperties_def json0_a1 json0_marshal_a1)

lemma json0_round_trip: "round_trip json0 text_a1 = (text_aa_indented, None)"
  by (simp add: round_trip_def json0_formatBody propertiesFromBody_def json0_a1_indented
      as_interface_map_def bodyFromProperties_def)
    (simp add: json0_def)

text \<open>
  When no poll fails and none reports the target version, the loop runs until the retry
  count reaches the budget, polling once and sleeping once per round.
\<close>

lemma wait_loop_timeout:
  assumes "\<And>t. \<exists>v. getInstalledModVersion modId (remote t) = Inr v \<and> v \<noteq> targetVersion"
  shows "wait_loop remote modId targetVersion maxRetries sleep retryCount now polled =
     (Some (PlainError ''Turbot mod installation timed out''),
      now + (maxRetries - retryCount) * sleep,
      polled @ map (\<lambda>i. now + i * sleep) [0..<maxRetries - retryCount])"
proof (induction "maxRetries - retryCount" arbitrary: retryCount now polled)
  case 0
  then show ?case
    by (simp add: wait_loop.simps [of _ _ _ maxRetries _ retryCount])
next
  case (Suc n)
  then have lt: "retryCount < maxRetries" and n: "n = maxRetries - (retryCount + 1)"
    by auto
  obtain v where v: "getInstalledModVersion modId (remote now) = Inr v" "v \<noteq> targetVersion"
    using assms by blast
  have "wait_loop remote modId targetVersion maxRetries sleep retryCount now polled =
      wait_loop remote modId targetVersion maxRetries sleep (retryCount + 1) (now + sleep)
        (polled @ [now])"
    using lt v by (simp add: wait_loop.simps [of _ _ _ maxRetries _ retryCount])
  also have "\<dots> = (Some (PlainError ''Turbot mod installation timed out''),
      (now + sleep) + (maxRetries - (retryCount + 1)) * sleep,
      (polled @ [now]) @ map (\<lambda>i. (now + sleep) + i * sleep) [0..<maxRetries - (retryCount + 1)])"
    using Suc.hyps(1) [OF n] .
  also have "\<dots> = (Some (PlainError ''Turbot mod installation timed out''),
      now + (maxRetries - retryCount) * sleep,
      polled @ map (\<lambda>i. now + i * sleep) [0..<maxRetries - retryCount])"
    using Suc.hyps(2) [symmetric] n [symmetric] by (simp add: map_upt_Suc del: upt_Suc)
  finally show ?case .
qed

text \<open>Whatever the remote system answers, each round of the loop adds one poll.\<close>

lemma wait_loop_polls:
  "length (snd (snd (wait_loop remote modId targetVersion maxRetries sleep retryCount now polled)))
     \<le> length polled + (maxRetries - retryCount)"
proof (induction "maxRetries - retryCount" arbitrary: retryCount now polled)
  case 0
  then show ?case
    by (simp add: wait_loop.simps [of _ _ _ maxRetries _ retryCount])
next
  case (Suc n)
  then have lt: "retryCount < maxRetries" and n: "n = maxRetries - (retryCount + 1)"
    by auto
  show ?case
  proof (cases "getInstalledModVersion modId (remote now)")
    case (Inl err)
    then show ?thesis
      using lt by (simp add: wait_loop.simps [of _ _ _ maxRetries _ retryCount])
  next
    case (Inr v)
    show ?thesis
    proof (cases "v = targetVersion")
      case True
      then show ?thesis
        using lt Inr by (simp add: wait_loop.simps [of _ _ _ maxRetries _ retryCount])
    next
      case False
      then show ?thesis
        using lt Inr Suc.hyps(1) [OF n, of "now + sleep" "polled @ [now]"]
        by (simp add: wait_loop.simps [of _ _ _ maxRetries _ retryCount])
    qed
  qed
qed

lemma stuck_poll: "getInstalledModVersion modId (stuck_remote t) = Inr ''0.9.0''"
  by (simp add: getInstalledModVersion_def stuck_remote_def stuck_client_def)

lemma stuck_latest:
  "getLatestCompatibleVersion semver0 stuck_client mod_config = Inr ''1.0.0''"
  by (simp add: getLatestCompatibleVersion_def GetString_def d_Get_def mod_config_def
      stuck_client_def semver0_def)

lemma stuck_wait:
  "waitForInstallation ''200'' ''1.0.0'' stuck_remote 0 =
     (Some (PlainError ''Turbot mod installation timed out''), 800, map (\<lambda>i. i * 20) [0..<40])"
proof -
  have "\<And>t. \<exists>v. getInstalledModVersion ''200'' (stuck_remote t) = Inr v \<and> v \<noteq> ''1.0.0''"
    by (simp add: stuck_poll)
  then show ?thesis
    using wait_loop_timeout [of "''200''" stuck_remote "''1.0.0''" 40 20 0 0 "[]"]
    by (simp add: waitForInstallation_def)
qed

lemma stuck_install:
  "modInstall semver0 set_parent_akas0 stuck_remote 0 mod_config =
     (None, d_Set ''latest_compatible_version'' (TString ''1.0.0'')
        (SetId ''200'' (d_Set ''parent_akas'' (TList [''tmod:@turbot/turbot#/'']) mod_config)))"
proof -
  have l: "getLatestCompatibleVersion semver0 (stuck_remote 0) mod_config = Inr ''1.0.0''"
    by (simp add: stuck_remote_def stuck_latest)
  have g: "GetString mod_config ''parent'' = ''tmod:@turbot/turbot#/''"
    "GetString mod_config ''org'' = ''turbot''" "GetString mod_config ''mod'' = ''aws''"
    "GetString mod_config ''version'' = ''*''"
    by (simp_all add: GetString_def d_Get_def mod_config_def)
  have i: "InstallMod (stuck_remote 0) ''tmod:@turbot/turbot#/'' ''turbot'' ''aws'' ''*'' =
      Inr \<lparr>mod_Turbot = \<lparr>Id = ''200'', ParentId = ''100'', Akas = None\<rparr>,
           mod_Parent = ''tmod:@turbot/turbot#/'', Org = ''turbot'', mod_Mod = ''aws'',
           mod_Version = ''*''\<rparr>"
    by (simp add: stuck_remote_def stuck_client_def)
  show ?thesis
    by (simp add: modInstall_def l g i stuck_wait set_parent_akas0_def)
qed

lemma stuck_read:
  "resourceTurbotModRead semver0 set_parent_akas0 stuck_client mod_config =
     (None, d_Set ''latest_compatible_version'' (TString ''1.0.0'')
        (d_Set ''version'' (TString ''0.9.0'')
          (d_Set ''mod'' (TString ''aws'')
            (d_Set ''org'' (TString ''turbot'')
              (d_Set ''parent'' (TString ''100'')
                (d_Set ''parent_akas'' (TList [''tmod:@turbot/turbot#/'']) mod_config))))))"
proof -
  have m: "ReadMod stuck_client (d_Id mod_config) =
      Inr \<lparr>mod_Turbot = \<lparr>Id = [], ParentId = ''100'', Akas = None\<rparr>,
           mod_Parent = ''100'', Org = ''turbot'', mod_Mod = ''aws'', mod_Version = ''0.9.0''\<rparr>"
    by (simp add: stuck_client_def mod_config_def)
  have g: "GetString mod_config ''parent'' = ''tmod:@turbot/turbot#/''"
    by (simp add: GetString_def d_Get_def mod_config_def)
  show ?thesis
    by (simp add: resourceTurbotModRead_def m stuck_latest set_parent_akas0_def g)
qed

section \<open>Version resolution\<close>

text \<open>
  C1. The resolver is claimed to return the greatest available version that satisfies
  the constraint. It returns the last one in the order of the list: when the remote
  system lists 2.0.0 before 1.0.0, both available, and the constraint accepts every
  version, the result is 1.0.0, although 1.0.0 precedes 2.0.0.
\<close>

theorem getLatestCompatibleVersion_last_match:
  "GetModVersions stuck_client ''turbot'' ''aws'' =
     Inr [\<lparr>Version = ''2.0.0'', Status = ''available''\<rparr>,
          \<lparr>Version = ''1.0.0'', Status = ''available''\<rparr>]
   \<and> NewVersion semver0 ''2.0.0'' = Inr (2, 0, 0)
   \<and> NewVersion semver0 ''1.0.0'' = Inr (1, 0, 0)
   \<and> version_less (1, 0, 0) (2, 0, 0)
   \<and> getLatestCompatibleVersion semver0 stuck_client mod_config = Inr ''1.0.0''"
  by (simp add: getLatestCompatibleVersion_def GetString_def d_Get_def mod_config_def
      stuck_client_def semver0_def)

section \<open>Installation and convergence\<close>

text \<open>
  C2. A timeout of the convergence wait is claimed to abort the install or update. On a
  remote system that never reports the target version the wait returns the timeout
  error, and the install and the update nevertheless return no error and assign the id.
\<close>

theorem modInstall_ignores_timeout:
  "fst (waitForInstallation ''200'' ''1.0.0'' stuck_remote 0) =
     Some (PlainError ''Turbot mod installation timed out'')
   \<and> fst (resourceTurbotModInstall semver0 set_parent_akas0 stuck_remote 0 mod_config) = None
   \<and> fst (resourceTurbotModUpdate semver0 set_parent_akas0 stuck_remote 0 mod_config) = None
   \<and> d_Id (snd (modInstall semver0 set_parent_akas0 stuck_remote 0 mod_config)) = ''200''"
  by (simp add: resourceTurbotModInstall_def resourceTurbotModUpdate_def stuck_wait
      stuck_install d_Set_def SetId_def)

text \<open>
  C9. When no poll fails and none reports the target version, the wait polls exactly
  40 times, at the moments \<open>now, now + 20, \<dots>, now + 39 * 20\<close>, sleeps 20 seconds after each
  poll, and returns the timeout error at \<open>now + 40 * 20\<close>. Whatever the remote system
  answers, one call never polls more than 40 times.
\<close>

theorem waitForInstallation_timeout:
  "((\<forall>t. \<exists>v. getInstalledModVersion modId (remote t) = Inr v \<and> v \<noteq> targetVersion) \<longrightarrow>
      waitForInstallation modId targetVersion remote now =
        (Some (PlainError ''Turbot mod installation timed out''),
         now + 40 * 20,
         map (\<lambda>i. now + i * 20) [0..<40])
      \<and> length (snd (snd (waitForInstallation modId targetVersion remote now))) = 40)
   \<and> length (snd (snd (waitForInstallation modId targetVersion remote now))) \<le> 40"
proof -
  have "length (snd (snd (waitForInstallation modId targetVersion remote now))) \<le> 40"
    using wait_loop_polls [of remote modId targetVersion 40 20 0 now "[]"]
    by (simp add: waitForInstallation_def)
  moreover have "waitForInstallation modId targetVersion remote now =
        (Some (PlainError ''Turbot mod installation timed out''),
         now + 40 * 20,
         map (\<lambda>i. now + i * 20) [0..<40])"
    if "\<forall>t. \<exists>v. getInstalledModVersion modId (remote t) = Inr v \<and> v \<noteq> targetVersion"
    using that wait_loop_timeout [of modId remote targetVersion 40 20 0 now "[]"]
    by (simp add: waitForInstallation_def)
  ultimately show ?thesis by simp
qed

theorem waitForInstallation_timeout_witness:
  "(\<forall>t. \<exists>v. getInstalledModVersion ''200'' (stuck_remote t) = Inr v \<and> v \<noteq> ''1.0.0'')
   \<and> fst (waitForInstallation ''200'' ''1.0.0'' stuck_remote 0) =
       Some (PlainError ''Turbot mod installation timed out'')
   \<and> fst (snd (waitForInstallation ''200'' ''1.0.0'' stuck_remote 0)) = 800
   \<and> length (snd (snd (waitForInstallation ''200'' ''1.0.0'' stuck_remote 0))) = 40"
proof -
  have h: "\<forall>t. \<exists>v. getInstalledModVersion ''200'' (stuck_remote t) = Inr v \<and> v \<noteq> ''1.0.0''"
    by (simp add: stuck_poll)
  show ?thesis
    using h waitForInstallation_timeout [of "''200''" stuck_remote "''1.0.0''" 0] by simp
qed

section \<open>Alias resolver\<close>

text \<open>
  C3. For a parent without recorded akas the resolver is claimed to store the list
  holding the parent id. The parent 100 is read successfully and has no akas; the list
  stored in \<^verbatim>\<open>parent_akas\<close> is empty.
\<close>

theorem setParentAkas_no_akas:
  "ReadResource stuck_client ''100'' None =
     Inr \<lparr>Turbot = \<lparr>Id = ''100'', ParentId = ''100'', Akas = None\<rparr>,
          Data = [''version'' \<mapsto> JString ''0.9.0'']\<rparr>
   \<and> fst (setParentAkas ''100'' resource_state stuck_client) = None
   \<and> attrs (snd (setParentAkas ''100'' resource_state stuck_client)) ''parent_akas'' =
       Some (TList [])"
  by (simp add: setParentAkas_def stuck_client_def d_Set_def)

section \<open>Read and the missing entity\<close>

text \<open>
  C4, as claimed: a read that fails with "not found" clears the id and is not reported as
  failed. Both the folder read and the resource read clear the id and return the error.
\<close>

theorem read_not_found_counterexample:
  "ReadFolder (failing_client (NotFound ''not found'')) (d_Id resource_state) =
     Inl (NotFound ''not found'')
   \<and> resourceTurbotFolderRead (failing_client (NotFound ''not found'')) resource_state =
       (Some (NotFound ''not found''), SetId [] resource_state)
   \<and> resourceTurbotResourceRead json0 (failing_client (NotFound ''not found'')) resource_state =
       (Some (NotFound ''not found''), SetId [] resource_state)"
  by (simp add: resourceTurbotFolderRead_def resourceTurbotResourceRead_def failing_client_def
      propertiesFromBody_def GetString_def d_Get_def resource_state_def json0_def)

text \<open>
  C4, amended. When the remote read of the entity fails, the read returns that very
  error; the id is cleared when the error is "not found", and the local state is left
  as it was for every other error.
\<close>

theorem read_failure:
  "(ReadFolder client (d_Id d) = Inl err \<longrightarrow>
      resourceTurbotFolderRead client d =
        (Some err, if NotFoundError err then SetId [] d else d))
   \<and> (propertiesFromBody js (GetString d ''body'') = Inr properties
        \<and> ReadResource client' (d_Id d) (Some properties) = Inl err' \<longrightarrow>
      resourceTurbotResourceRead js client' d =
        (Some err', if NotFoundError err' then SetId [] d else d))"
  by (simp add: resourceTurbotFolderRead_def resourceTurbotResourceRead_def)

theorem read_failure_witness:
  "ReadFolder (failing_client (NotFound ''not found'')) (d_Id resource_state) =
     Inl (NotFound ''not found'')
   \<and> resourceTurbotFolderRead (failing_client (NotFound ''not found'')) resource_state =
       (Some (NotFound ''not found''), SetId [] resource_state)
   \<and> propertiesFromBody json0 (GetString resource_state ''body'') =
       Inr (\<lambda>k. if k \<in> dom [''a'' \<mapsto> (JNumber 1 :: int json)] then Some k else None)
   \<and> ReadResource (failing_client (TransportError ''connection refused'')) (d_Id resource_state)
       (Some (\<lambda>k. if k \<in> dom [''a'' \<mapsto> (JNumber 1 :: int json)] then Some k else None)) =
       Inl (TransportError ''connection refused'')
   \<and> resourceTurbotResourceRead json0 (failing_client (TransportError ''connection refused''))
       resource_state = (Some (TransportError ''connection refused''), resource_state)"
proof -
  have f: "ReadFolder (failing_client (NotFound ''not found'')) (d_Id resource_state) =
      Inl (NotFound ''not found'')"
    by (simp add: failing_client_def)
  have p: "propertiesFromBody json0 (GetString resource_state ''body'') =
      Inr (\<lambda>k. if k \<in> dom [''a'' \<mapsto> (JNumber 1 :: int json)] then Some k else None)"
    by (simp add: propertiesFromBody_def GetString_def d_Get_def resource_state_def json0_a1)
  have r: "ReadResource (failing_client (TransportError ''connection refused''))
      (d_Id resource_state)
      (Some (\<lambda>k. if k \<in> dom [''a'' \<mapsto> (JNumber 1 :: int json)] then Some k else None)) =
      Inl (TransportError ''connection refused'')"
    by (simp add: failing_client_def)
  show ?thesis
    using f p r
      read_failure [of "failing_client (NotFound ''not found'')" resource_state
        "NotFound ''not found''" json0
        "\<lambda>k. if k \<in> dom [''a'' \<mapsto> (JNumber 1 :: int json)] then Some k else None"
        "failing_client (TransportError ''connection refused'')"
        "TransportError ''connection refused''"]
    by simp
qed

section \<open>Control data source\<close>

text \<open>
  C5. The selector is claimed to pair the declared uri with the declared resource id.
  With id 400, a uri and resource 300 declared, the string handed to \<^verbatim>\<open>ReadControl\<close>
  (which the client here returns in its error) pairs the uri with the uri.
\<close>

theorem control_args_uri_twice:
  "GetString control_config ''uri'' = ''tmod:@turbot/aws#/control/types/x''
   \<and> GetString control_config ''resource'' = ''300''
   \<and> control_selector_spec control_config =
       ''uri: tmod:@turbot/aws#/control/types/x, resourceId: 300''
   \<and> dataSourceTurbotControlRead stuck_client control_config =
       (Some (TransportError
          ''uri: tmod:@turbot/aws#/control/types/x, resourceId: tmod:@turbot/aws#/control/types/x''),
        control_config)"
  by (simp add: dataSourceTurbotControlRead_def control_args_def control_selector_spec_def
      GetString_def d_Get_def control_config_def stuck_client_def)

section \<open>Body normaliser\<close>

text \<open>
  C6, as claimed: the round trip gives back a document structurally equal to \<open>x\<close>. For
  the object with the one member \<open>a\<close> of value 1, it gives the object whose member \<open>a\<close>
  has the string \<open>a\<close> as value.
\<close>

theorem round_trip_counterexample:
  "Unmarshal json0 text_a1 = Inr [''a'' \<mapsto> JNumber 1]
   \<and> round_trip json0 text_a1 = (text_aa_indented, None)
   \<and> \<not> structurally_equal json0 (fst (round_trip json0 text_a1)) text_a1"
proof -
  have "[''a'' \<mapsto> JString ''a''] \<noteq> [''a'' \<mapsto> (JNumber 1 :: int json)]"
  proof
    assume "[''a'' \<mapsto> JString ''a''] = [''a'' \<mapsto> (JNumber 1 :: int json)]"
    then have "[''a'' \<mapsto> JString ''a''] ''a'' = [''a'' \<mapsto> (JNumber 1 :: int json)] ''a''"
      by (rule fun_cong)
    then show False by simp
  qed
  then show ?thesis
    by (simp add: json0_round_trip json0_a1 structurally_equal_def json0_aa_indented)
qed

text \<open>
  C6, amended. For a text \<open>x\<close> that decodes to an object \<open>m\<close> whose normal form decodes to
  \<open>m\<close> again, the round trip is the serialisation of the object that has the top-level
  keys of \<open>m\<close>, each with its own name as value.
\<close>

theorem round_trip_keys:
  assumes "Unmarshal js x = Inr m"
    and "MarshalIndent js m = Inr s"
    and "Unmarshal js s = Inr m"
  shows "round_trip js x =
     bodyFromProperties js (\<lambda>k. if k \<in> dom m then Some (JString k) else None)"
proof -
  have f: "formatBody js x = s"
    using assms(1,2) by (simp add: formatBody_def bodyFromProperties_def)
  have p: "propertiesFromBody js s = Inr (\<lambda>k. if k \<in> dom m then Some k else None)"
    using assms(3) by (simp add: propertiesFromBody_def)
  have e: "as_interface_map (\<lambda>k. if k \<in> dom m then Some k else None) =
      (\<lambda>k. if k \<in> dom m then Some (JString k) else None)"
    by (rule ext) (simp add: as_interface_map_def)
  show ?thesis
    unfolding round_trip_def f p by (simp only: sum.case e)
qed

theorem round_trip_keys_witness:
  "round_trip json0 text_a1 =
     bodyFromProperties json0
       (\<lambda>k. if k \<in> dom [''a'' \<mapsto> (JNumber 1 :: int json)] then Some (JString k) else None)"
  using round_trip_keys [OF json0_a1 json0_marshal_a1 json0_a1_indented] .

text \<open>
  C8. Two texts that decode to objects with the same members in a different order have
  the same normal form, so the body diff is suppressed when both texts are non-empty;
  it is never suppressed when the old or the new text is empty.
\<close>

theorem formatBody_key_order:
  assumes "Unmarshal js a = Inr (map_of ms)"
    and "Unmarshal js b = Inr (map_of ms')"
    and "mset ms = mset ms'"
    and "distinct (map fst ms)"
  shows "formatBody js a = formatBody js b
     \<and> (a \<noteq> [] \<and> b \<noteq> [] \<longrightarrow> suppressIfBodyMatches js k a b d)
     \<and> \<not> suppressIfBodyMatches js k [] new d
     \<and> \<not> suppressIfBodyMatches js k old [] d"
proof -
  have "map_of ms = map_of ms'"
    using assms(3,4) by (rule map_of_reorder)
  then have "formatBody js a = formatBody js b"
    using assms(1,2) by (simp add: formatBody_def)
  then show ?thesis
    by (simp add: suppressIfBodyMatches_def)
qed

theorem formatBody_key_order_witness:
  "Unmarshal json0 text_ab = Inr (map_of [(''b'', JNumber 2), (''a'', JNumber 1)])
   \<and> Unmarshal json0 text_ba = Inr (map_of [(''a'', JNumber 1), (''b'', JNumber 2)])
   \<and> text_ab \<noteq> text_ba
   \<and> formatBody json0 text_ab = formatBody json0 text_ba
   \<and> suppressIfBodyMatches json0 ''body'' text_ab text_ba resource_state"
proof -
  have m: "mset [(''b'', JNumber 2), (''a'', (JNumber 1 :: int json))] =
      mset [(''a'', JNumber 1), (''b'', JNumber 2)]"
    by (simp add: add_mset_commute)
  have d: "distinct (map fst [(''b'', JNumber 2), (''a'', (JNumber 1 :: int json))])"
    by simp
  have ne: "text_ab \<noteq> [] \<and> text_ba \<noteq> [] \<and> text_ab \<noteq> text_ba"
    by (simp add: text_ab_def text_ba_def)
  show ?thesis
    using formatBody_key_order [OF json0_ab json0_ba m d, of "''body''" resource_state] ne
      json0_ab json0_ba
    by simp
qed

section \<open>Diff suppression\<close>

text \<open>
  C7. The parent diff is suppressed exactly when a non-empty list of akas is stored and
  the new parent value is one of its elements; with no stored list it is not suppressed.
\<close>

theorem supressIfParentAkaMatches_iff:
  "supressIfParentAkaMatches k old new d =
     (\<exists>akas. attrs d ''parent_akas'' = Some (TList akas) \<and> akas \<noteq> [] \<and> new \<in> set akas)
   \<and> (attrs d ''parent_akas'' = None \<longrightarrow> \<not> supressIfParentAkaMatches k old new d)"
  by (auto simp: supressIfParentAkaMatches_def GetOk_def d_Get_def schema_zero_def
      aka_loop_mem split: option.splits tfvalue.splits)

theorem supressIfParentAkaMatches_iff_witness:
  "attrs \<lparr>d_Id = ''1'', attrs = Map.empty\<rparr> ''parent_akas'' = None
   \<and> \<not> supressIfParentAkaMatches ''parent'' ''1'' ''tmod:root'' \<lparr>d_Id = ''1'', attrs = Map.empty\<rparr>"
  using supressIfParentAkaMatches_iff
    [of "''parent''" "''1''" "''tmod:root''" "\<lparr>d_Id = ''1'', attrs = Map.empty\<rparr>"]
  by simp

text \<open>
  C10. The version diff is never suppressed, whatever the key, the old and new values
  and the local state; and every install and every read that returns without error has
  stored the resolved version in \<^verbatim>\<open>latest_compatible_version\<close>.
\<close>

theorem version_diff_never_suppressed:
  "\<not> supressIfLatestCompatibleVersionInstalled k old new d
   \<and> (modInstall sv setParentAkasMod remote now d = (None, d') \<longrightarrow>
        (\<exists>targetVersion. getLatestCompatibleVersion sv (remote now) d = Inr targetVersion
           \<and> attrs d' ''latest_compatible_version'' = Some (TString targetVersion)))
   \<and> (resourceTurbotModRead sv setParentAkasMod client d = (None, d'') \<longrightarrow>
        (\<exists>targetVersion. getLatestCompatibleVersion sv client d = Inr targetVersion
           \<and> attrs d'' ''latest_compatible_version'' = Some (TString targetVersion)))"
  by (auto simp: supressIfLatestCompatibleVersionInstalled_def modInstall_def
      resourceTurbotModRead_def d_Set_def SetId_def Let_def
      split: sum.splits prod.splits option.splits error.splits)

theorem version_diff_never_suppressed_witness:
  "modInstall semver0 set_parent_akas0 stuck_remote 0 mod_config =
     (None, snd (modInstall semver0 set_parent_akas0 stuck_remote 0 mod_config))
   \<and> attrs (snd (modInstall semver0 set_parent_akas0 stuck_remote 0 mod_config))
       ''latest_compatible_version'' = Some (TString ''1.0.0'')
   \<and> resourceTurbotModRead semver0 set_parent_akas0 stuck_client mod_config =
       (None, snd (resourceTurbotModRead semver0 set_parent_akas0 stuck_client mod_config))
   \<and> attrs (snd (resourceTurbotModRead semver0 set_parent_akas0 stuck_client mod_config))
       ''latest_compatible_version'' = Some (TString ''1.0.0'')
   \<and> \<not> supressIfLatestCompatibleVersionInstalled ''version'' ''0.9.0'' ''*'' mod_config"
proof -
  have i: "modInstall semver0 set_parent_akas0 stuck_remote 0 mod_config =
      (None, snd (modInstall semver0 set_parent_akas0 stuck_remote 0 mod_config))"
    by (simp add: stuck_install)
  have r: "resourceTurbotModRead semver0 set_parent_akas0 stuck_client mod_config =
      (None, snd (resourceTurbotModRead semver0 set_parent_akas0 stuck_client mod_config))"
    by (simp add: stuck_read)
  have l: "getLatestCompatibleVersion semver0 (stuck_remote 0) mod_config = Inr ''1.0.0''"
    by (simp add: stuck_remote_def stuck_latest)
  show ?thesis
    using i r l stuck_latest
      version_diff_never_suppressed [of "''version''" "''0.9.0''" "''*''" mod_config semver0
        set_parent_akas0 stuck_remote 0
        "snd (modInstall semver0 set_parent_akas0 stuck_remote 0 mod_config)"
        stuck_client
        "snd (resourceTurbotModRead semver0 set_parent_akas0 stuck_client mod_config)"]
    by simp
qed

end
